theory Spec2Isabelle
  imports Main
begin

section \<open>The header \<open>tsg_python.h\<close>\<close>

text \<open>
  The only source file is the public C header of the \<open>tsg-python\<close> grammar binding:
  \<^verbatim>\<open>
   1  #ifndef TREE_SITTER_TSG_PYTHON_H_
   2  #define TREE_SITTER_TSG_PYTHON_H_
   3
   4  typedef struct TSLanguage TSLanguage;
   5
   6  #ifdef __cplusplus
   7  extern "C" {
   8  #endif
   9
  10  const TSLanguage *tree_sitter_tsg_python(void);
  11
  12  #ifdef __cplusplus
  13  }
  14  #endif
  15
  16  #endif // TREE_SITTER_TSG_PYTHON_H_
  \<close>
  It has no function body. What it does decide is which declarations a translation unit
  sees once the preprocessor has run, in C and in C++, and what a caller that has only
  these declarations may write. The header is therefore embedded as the list of its lines,
  each a directive or a sequence of tokens, and the language mechanisms it relies on
  (conditional inclusion, macro replacement, declarations, linkage specifications, the
  typing of a caller's expressions) as functions.
\<close>

subsection \<open>The text of the header\<close>

datatype token =
    Word string     \<comment> \<open>an identifier or a keyword\<close>
  | Punct string    \<comment> \<open>a punctuator\<close>
  | StrLit string   \<comment> \<open>a string literal, without its quotes\<close>
  | Number string   \<comment> \<open>a preprocessing number\<close>

datatype line =
    IfNDef string
  | IfDef string
  | Define string "token list"
  | EndIf
  | Text "token list"

definition guard :: string where
  "guard = ''TREE_SITTER_TSG_PYTHON_H_''"

definition cplusplus :: string where
  "cplusplus = ''__cplusplus''"

text \<open>The header, line by line (blank lines and the trailing comment carry nothing).\<close>

definition tsg_python_h :: "line list" where
  "tsg_python_h =
    [ IfNDef guard,
      Define guard [],
      Text [Word ''typedef'', Word ''struct'', Word ''TSLanguage'', Word ''TSLanguage'',
            Punct '';''],
      IfDef cplusplus,
      Text [Word ''extern'', StrLit ''C'', Punct ''{''],
      EndIf,
      Text [Word ''const'', Word ''TSLanguage'', Punct ''*'', Word ''tree_sitter_tsg_python'',
            Punct ''('', Word ''void'', Punct '')'', Punct '';''],
      IfDef cplusplus,
      Text [Punct ''}''],
      EndIf,
      EndIf ]"

subsection \<open>Macro replacement and conditional inclusion\<close>

text \<open>
  The macros in force are a list of object-like macros, each a name with its replacement
  list; the first entry for a name counts. Function-like macros and the operators
  \<open>#\<close> and \<open>##\<close> are outside this type. A word that names a macro is replaced by the
  macro's replacement list, which is scanned again with that macro switched off.
\<close>

type_synonym macros = "(string \<times> token list) list"

function expand :: "macros \<Rightarrow> token list \<Rightarrow> token list" where
  "expand ms [] = []"
| "expand ms (Word w # ts) =
    (case map_of ms w of
       None \<Rightarrow> Word w # expand ms ts
     | Some body \<Rightarrow> expand (filter (\<lambda>m. fst m \<noteq> w) ms) body @ expand ms ts)"
| "expand ms (Punct p # ts) = Punct p # expand ms ts"
| "expand ms (StrLit s # ts) = StrLit s # expand ms ts"
| "expand ms (Number n # ts) = Number n # expand ms ts"
  by pat_completeness auto
termination
proof (relation "measures [\<lambda>(ms, ts). length ms, \<lambda>(ms, ts). length ts]")
  fix ms :: macros and w ts body
  assume "map_of ms w = Some body"
  then have "(w, body) \<in> set ms"
    by (rule map_of_SomeD)
  then have "length (filter (\<lambda>m. fst m \<noteq> w) ms) < length ms"
    by (intro length_filter_less[of "(w, body)"]) simp_all
  then show "((filter (\<lambda>m. fst m \<noteq> w) ms, body), ms, Word w # ts)
        \<in> measures [\<lambda>(ms, ts). length ms, \<lambda>(ms, ts). length ts]"
    by simp
qed simp_all

text \<open>
  The preprocessor keeps the macros in force and a stack with one entry per open \<open>#if\<close>
  group, telling whether the lines of that group are kept. It returns the tokens of the
  kept text lines, macros replaced, and the macros in force at the end. An \<open>#endif\<close>
  without an open group, or a group left open at the end of the file, is an error
  (\<open>None\<close>).
\<close>

fun active :: "bool list \<Rightarrow> bool" where
  "active [] = True"
| "active (b # bs) = b"

fun preprocess :: "macros \<Rightarrow> bool list \<Rightarrow> line list \<Rightarrow> (token list \<times> macros) option" where
  "preprocess ms st [] = (if st = [] then Some ([], ms) else None)"
| "preprocess ms st (IfNDef m # ls) =
    preprocess ms ((active st \<and> map_of ms m = None) # st) ls"
| "preprocess ms st (IfDef m # ls) =
    preprocess ms ((active st \<and> map_of ms m \<noteq> None) # st) ls"
| "preprocess ms st (Define m body # ls) =
    preprocess (if active st then (m, body) # ms else ms) st ls"
| "preprocess ms st (EndIf # ls) =
    (case st of [] \<Rightarrow> None | b # st' \<Rightarrow> preprocess ms st' ls)"
| "preprocess ms st (Text ts # ls) =
    (case preprocess ms st ls of
       None \<Rightarrow> None
     | Some (out, ms') \<Rightarrow> Some ((if active st then expand ms ts else []) @ out, ms'))"

text \<open>
  The words that occur in the text lines of a file, and the condition that none of them
  names a macro: then macro replacement leaves the text as it is written.
\<close>

fun token_words :: "token list \<Rightarrow> string list" where
  "token_words [] = []"
| "token_words (Word w # ts) = w # token_words ts"
| "token_words (t # ts) = token_words ts"

fun words_of :: "line list \<Rightarrow> string list" where
  "words_of [] = []"
| "words_of (Text ts # ls) = token_words ts @ words_of ls"
| "words_of (l # ls) = words_of ls"

definition untouched :: "macros \<Rightarrow> line list \<Rightarrow> bool" where
  "untouched ms hdr = list_all (\<lambda>w. map_of ms w = None) (words_of hdr)"

datatype lang = LangC | LangCxx

text \<open>
  A C++ compiler predefines \<open>__cplusplus\<close> (to a number that names the standard); a C
  compiler does not.
\<close>

fun predefined :: "lang \<Rightarrow> macros" where
  "predefined LangC = []"
| "predefined LangCxx = [(cplusplus, [Number ''201703L''])]"

subsection \<open>Declarations\<close>

datatype ctype =
    TVoid
  | TSize           \<comment> \<open>the integer type of a \<open>sizeof\<close> expression\<close>
  | TNamed string   \<comment> \<open>a type named by an identifier\<close>
  | TStruct string  \<comment> \<open>\<open>struct tag\<close>\<close>
  | TConst ctype    \<comment> \<open>\<open>const T\<close>\<close>
  | TPtr ctype      \<comment> \<open>\<open>T *\<close>\<close>

datatype storage = Static | Extern

datatype item =
    TypedefStruct string string
      \<comment> \<open>\<open>typedef struct tag name;\<close>\<close>
  | StructDecl string
      \<comment> \<open>\<open>struct tag;\<close>\<close>
  | StructDef string "(string \<times> ctype) list"
      \<comment> \<open>\<open>struct tag { members };\<close>\<close>
  | LinkageOpen string
      \<comment> \<open>\<open>extern "lang" {\<close>\<close>
  | LinkageClose
      \<comment> \<open>the closing brace of a linkage specification\<close>
  | FunProto "storage option" ctype string "ctype list"
      \<comment> \<open>\<open>[storage] ret name(params);\<close>\<close>

definition reserved :: "string list" where
  "reserved = [''typedef'', ''struct'', ''const'', ''void'', ''extern'', ''static'']"

definition is_name :: "string \<Rightarrow> bool" where
  "is_name w = (w \<notin> set reserved)"

text \<open>
  The token sequence of a file is cut into declarations: a declaration ends at its
  semicolon, a linkage specification opens at its brace, and a closing brace outside a
  struct body stands alone. The number counts the braces open inside a struct body.
\<close>

fun struct_head :: "token list \<Rightarrow> bool" where
  "struct_head [Word s, Word tag] = (s = ''struct'')"
| "struct_head ts = False"

fun chunks :: "nat \<Rightarrow> token list \<Rightarrow> token list \<Rightarrow> token list list" where
  "chunks d acc [] = (if acc = [] then [] else [rev acc])"
| "chunks d acc (t # ts) =
    (if t = Punct ''{'' \<and> (0 < d \<or> struct_head (rev acc)) then chunks (Suc d) (t # acc) ts
     else if t = Punct ''}'' \<and> 0 < d then chunks (d - 1) (t # acc) ts
     else if 0 < d then chunks d (t # acc) ts
     else if t = Punct '';'' \<or> t = Punct ''{'' \<or> t = Punct ''}'' then
       rev (t # acc) # chunks 0 [] ts
     else chunks d (t # acc) ts)"

text \<open>
  A type is written as an optional \<open>const\<close>, then \<open>void\<close>, \<open>struct tag\<close> or a type name,
  then any number of \<open>*\<close>, each optionally followed by \<open>const\<close>.
\<close>

fun parse_base :: "token list \<Rightarrow> (ctype \<times> token list) option" where
  "parse_base (Word w # ts) =
    (if w = ''const'' then
       (case parse_base ts of None \<Rightarrow> None | Some (t, r) \<Rightarrow> Some (TConst t, r))
     else if w = ''void'' then Some (TVoid, ts)
     else if w = ''struct'' then
       (case ts of
          Word tag # r \<Rightarrow> if is_name tag then Some (TStruct tag, r) else None
        | _ \<Rightarrow> None)
     else if is_name w then Some (TNamed w, ts)
     else None)"
| "parse_base ts = None"

fun parse_stars :: "ctype \<Rightarrow> token list \<Rightarrow> ctype \<times> token list" where
  "parse_stars t (Punct p # Word w # ts) =
    (if p = ''*'' then
       (if w = ''const'' then parse_stars (TConst (TPtr t)) ts
        else parse_stars (TPtr t) (Word w # ts))
     else (t, Punct p # Word w # ts))"
| "parse_stars t (Punct p # ts) =
    (if p = ''*'' then parse_stars (TPtr t) ts else (t, Punct p # ts))"
| "parse_stars t ts = (t, ts)"

definition parse_type :: "token list \<Rightarrow> (ctype \<times> token list) option" where
  "parse_type ts =
    (case parse_base ts of None \<Rightarrow> None | Some (t, r) \<Rightarrow> Some (parse_stars t r))"

fun split_on :: "token \<Rightarrow> token list \<Rightarrow> token list \<Rightarrow> token list list" where
  "split_on s acc [] = [rev acc]"
| "split_on s acc (t # ts) =
    (if t = s then rev acc # split_on s [] ts else split_on s (t # acc) ts)"

text \<open>A parameter is a type, with or without a name; \<open>(void)\<close> is the empty list.\<close>

definition parse_param :: "token list \<Rightarrow> ctype option" where
  "parse_param ts =
    (case parse_type ts of
       Some (t, []) \<Rightarrow> Some t
     | Some (t, [Word n]) \<Rightarrow> if is_name n then Some t else None
     | _ \<Rightarrow> None)"

definition parse_params :: "token list \<Rightarrow> ctype list option" where
  "parse_params ts =
    (if ts = [] \<or> ts = [Word ''void''] then Some []
     else those (map parse_param (split_on (Punct '','') [] ts)))"

definition parse_member :: "token list \<Rightarrow> (string \<times> ctype) option" where
  "parse_member ts =
    (case parse_type ts of
       Some (t, [Word n]) \<Rightarrow> if is_name n then Some (n, t) else None
     | _ \<Rightarrow> None)"

definition parse_members :: "token list \<Rightarrow> (string \<times> ctype) list option" where
  "parse_members ts =
    (case rev (split_on (Punct '';'') [] ts) of
       [] # ms \<Rightarrow> those (map parse_member (rev ms))
     | _ \<Rightarrow> None)"

definition parse_storage :: "token list \<Rightarrow> storage option \<times> token list" where
  "parse_storage ts =
    (case ts of
       Word w # r \<Rightarrow>
         if w = ''static'' then (Some Static, r)
         else if w = ''extern'' then (Some Extern, r)
         else (None, ts)
     | _ \<Rightarrow> (None, ts))"

definition parse_proto :: "token list \<Rightarrow> item option" where
  "parse_proto c =
    (case parse_storage c of
       (sc, ts) \<Rightarrow>
         (case parse_type ts of
            Some (ret, Word name # Punct p # r) \<Rightarrow>
              (case rev r of
                 Punct s # Punct q # ps \<Rightarrow>
                   if is_name name \<and> p = ''('' \<and> q = '')'' \<and> s = '';'' then
                     map_option (FunProto sc ret name) (parse_params (rev ps))
                   else None
               | _ \<Rightarrow> None)
          | _ \<Rightarrow> None))"

definition parse_typedef :: "token list \<Rightarrow> item option" where
  "parse_typedef r =
    (case r of
       [Word s, Word tag, Word name, Punct p] \<Rightarrow>
         if s = ''struct'' \<and> is_name tag \<and> is_name name \<and> p = '';'' then
           Some (TypedefStruct tag name)
         else None
     | _ \<Rightarrow> None)"

definition parse_struct :: "token list \<Rightarrow> token list \<Rightarrow> item option" where
  "parse_struct c r =
    (case r of
       Word tag # Punct p # r' \<Rightarrow>
         if is_name tag \<and> p = '';'' \<and> r' = [] then Some (StructDecl tag)
         else if is_name tag \<and> p = ''{'' then
           (case rev r' of
              Punct s # Punct q # body \<Rightarrow>
                if s = '';'' \<and> q = ''}'' then
                  map_option (StructDef tag) (parse_members (rev body))
                else None
            | _ \<Rightarrow> None)
         else parse_proto c
     | _ \<Rightarrow> parse_proto c)"

text \<open>
  One declaration, chosen by its first token. Text that is none of the forms above is
  rejected (\<open>None\<close>); the arithmetic types, arrays, function pointers and a linkage
  specification without braces are not among them.
\<close>

definition parse_chunk :: "token list \<Rightarrow> item option" where
  "parse_chunk c =
    (case c of
       Punct p # r \<Rightarrow> if p = ''}'' \<and> r = [] then Some LinkageClose else None
     | Word w # r \<Rightarrow>
         if w = ''typedef'' then parse_typedef r
         else if w = ''struct'' then parse_struct c r
         else if w = ''extern'' then
           (case r of
              StrLit s # r' \<Rightarrow> if r' = [Punct ''{''] then Some (LinkageOpen s) else None
            | _ \<Rightarrow> parse_proto c)
         else parse_proto c
     | _ \<Rightarrow> None)"

definition parse_unit :: "token list \<Rightarrow> item list option" where
  "parse_unit ts = those (map parse_chunk (chunks 0 [] ts))"

subsection \<open>The translation unit\<close>

datatype linkage = CLinkage | CxxLinkage

record fun_decl =
  fd_name :: string
  fd_linkage :: linkage
  fd_external :: bool
  fd_ret :: ctype
  fd_params :: "ctype list"

record tunit =
  tu_typedefs :: "(string \<times> ctype) list"
  tu_struct_decls :: "string list"
  tu_struct_defs :: "(string \<times> (string \<times> ctype) list) list"
  tu_funs :: "fun_decl list"

definition empty_tu :: tunit where
  "empty_tu = \<lparr> tu_typedefs = [], tu_struct_decls = [], tu_struct_defs = [], tu_funs = [] \<rparr>"

text \<open>
  A type name stands for the type its typedef gives; in C++ the tag of a declared struct
  is a type name as well. An unknown name is an error.
\<close>

fun resolve :: "lang \<Rightarrow> tunit \<Rightarrow> ctype \<Rightarrow> ctype option" where
  "resolve l tu TVoid = Some TVoid"
| "resolve l tu TSize = Some TSize"
| "resolve l tu (TNamed n) =
    (case map_of (tu_typedefs tu) n of
       Some t \<Rightarrow> Some t
     | None \<Rightarrow>
         if l = LangCxx \<and> n \<in> set (tu_struct_decls tu) then Some (TStruct n) else None)"
| "resolve l tu (TStruct tag) = Some (TStruct tag)"
| "resolve l tu (TConst t) = map_option TConst (resolve l tu t)"
| "resolve l tu (TPtr t) = map_option TPtr (resolve l tu t)"

fun resolve_all :: "lang \<Rightarrow> tunit \<Rightarrow> ctype list \<Rightarrow> ctype list option" where
  "resolve_all l tu [] = Some []"
| "resolve_all l tu (t # ts) =
    (case resolve l tu t of
       None \<Rightarrow> None
     | Some t' \<Rightarrow> map_option ((#) t') (resolve_all l tu ts))"

text \<open>
  Language linkage. In C every function has C linkage and a linkage specification is a
  syntax error. In C++ a function has C++ linkage unless it is declared inside
  \<open>extern "C" { ... }\<close>; specifications nest, the innermost one decides.
\<close>

fun linkage_named :: "string \<Rightarrow> linkage option" where
  "linkage_named s =
    (if s = ''C'' then Some CLinkage else if s = ''C++'' then Some CxxLinkage else None)"

fun current_linkage :: "lang \<Rightarrow> linkage list \<Rightarrow> linkage" where
  "current_linkage LangC [] = CLinkage"
| "current_linkage LangCxx [] = CxxLinkage"
| "current_linkage l (k # ks) = k"

text \<open>A function declared without \<open>static\<close> has external linkage: its symbol is exported.\<close>

fun external :: "storage option \<Rightarrow> bool" where
  "external (Some Static) = False"
| "external sc = True"

fun translate :: "lang \<Rightarrow> linkage list \<Rightarrow> tunit \<Rightarrow> item list \<Rightarrow> tunit option" where
  "translate l ks tu [] = (if ks = [] then Some tu else None)"
| "translate l ks tu (TypedefStruct tag name # its) =
    translate l ks
      (tu\<lparr> tu_typedefs := (name, TStruct tag) # tu_typedefs tu,
           tu_struct_decls := List.insert tag (tu_struct_decls tu) \<rparr>) its"
| "translate l ks tu (StructDecl tag # its) =
    translate l ks (tu\<lparr> tu_struct_decls := List.insert tag (tu_struct_decls tu) \<rparr>) its"
| "translate l ks tu (StructDef tag ms # its) =
    (case those (map (\<lambda>(n, t). map_option (Pair n) (resolve l tu t)) ms) of
       None \<Rightarrow> None
     | Some ms' \<Rightarrow>
         translate l ks
           (tu\<lparr> tu_struct_decls := List.insert tag (tu_struct_decls tu),
                tu_struct_defs := (tag, ms') # tu_struct_defs tu \<rparr>) its)"
| "translate l ks tu (LinkageOpen s # its) =
    (if l = LangC then None
     else case linkage_named s of
            None \<Rightarrow> None
          | Some k \<Rightarrow> translate l (k # ks) tu its)"
| "translate l ks tu (LinkageClose # its) =
    (case ks of [] \<Rightarrow> None | k # ks' \<Rightarrow> translate l ks' tu its)"
| "translate l ks tu (FunProto sc ret name ps # its) =
    (case resolve l tu ret of
       None \<Rightarrow> None
     | Some r \<Rightarrow>
         (case resolve_all l tu ps of
            None \<Rightarrow> None
          | Some qs \<Rightarrow>
              translate l ks
                (tu\<lparr> tu_funs := tu_funs tu @
                      [\<lparr> fd_name = name, fd_linkage = current_linkage l ks,
                         fd_external = external sc, fd_ret = r, fd_params = qs \<rparr>] \<rparr>) its))"

text \<open>
  Compiling a file that consists of the header: \<open>M\<close> holds the macros defined before the
  header is read (on the command line or by earlier lines of the including file); the
  compiler's own come first.
\<close>

definition declarations :: "lang \<Rightarrow> macros \<Rightarrow> line list \<Rightarrow> item list option" where
  "declarations l M hdr =
    (case preprocess (predefined l @ M) [] hdr of
       None \<Rightarrow> None
     | Some (toks, M') \<Rightarrow> parse_unit toks)"

definition compile :: "lang \<Rightarrow> macros \<Rightarrow> line list \<Rightarrow> tunit option" where
  "compile l M hdr =
    (case declarations l M hdr of
       None \<Rightarrow> None
     | Some its \<Rightarrow> translate l [] empty_tu its)"

subsection \<open>What a caller may write\<close>

text \<open>
  An object type is complete when its size is known. \<open>void\<close> never is; a struct is once
  its member list has been seen; a pointer always is, whatever it points to.
\<close>

fun complete :: "tunit \<Rightarrow> ctype \<Rightarrow> bool" where
  "complete tu TVoid = False"
| "complete tu TSize = True"
| "complete tu (TNamed n) = False"
| "complete tu (TStruct tag) = (map_of (tu_struct_defs tu) tag \<noteq> None)"
| "complete tu (TConst t) = complete tu t"
| "complete tu (TPtr t) = True"

fun unqual :: "ctype \<Rightarrow> ctype" where
  "unqual (TConst t) = unqual t"
| "unqual t = t"

fun mentions :: "string \<Rightarrow> ctype \<Rightarrow> bool" where
  "mentions tag TVoid = False"
| "mentions tag TSize = False"
| "mentions tag (TNamed n) = False"
| "mentions tag (TStruct tag') = (tag = tag')"
| "mentions tag (TConst t) = mentions tag t"
| "mentions tag (TPtr t) = mentions tag t"

text \<open>
  The caller's expressions: a call \<open>f(args)\<close>, an indirection \<open>*e\<close>, a member selection
  \<open>e.m\<close> (so that \<open>e->m\<close> is \<open>(*e).m\<close>) and \<open>sizeof(T)\<close>. Casts, the address operator,
  assignment and arithmetic are not part of this language.

  An expression has a type and is an lvalue or an rvalue. Where a value is needed, an
  lvalue is converted, which reads the object and so needs a complete type. Indirection
  itself asks nothing of the type pointed to, other than that it is not \<open>void\<close> in C++;
  it gives an lvalue.
\<close>

datatype expr =
    ECall string "expr list"
  | EDeref expr
  | EMember expr string
  | ESizeOf ctype

datatype category = LV | RV

fun to_rvalue :: "tunit \<Rightarrow> (category \<times> ctype) option \<Rightarrow> ctype option" where
  "to_rvalue tu None = None"
| "to_rvalue tu (Some (RV, t)) = Some (unqual t)"
| "to_rvalue tu (Some (LV, t)) = (if complete tu t then Some (unqual t) else None)"

fun type_of :: "lang \<Rightarrow> tunit \<Rightarrow> expr \<Rightarrow> (category \<times> ctype) option" where
  "type_of l tu (ECall f args) =
    (case find (\<lambda>d. fd_name d = f) (tu_funs tu) of
       None \<Rightarrow> None
     | Some d \<Rightarrow>
         if map (\<lambda>a. to_rvalue tu (type_of l tu a)) args =
              map (\<lambda>t. Some (unqual t)) (fd_params d)
            \<and> (fd_ret d = TVoid \<or> complete tu (fd_ret d))
         then Some (RV, fd_ret d) else None)"
| "type_of l tu (EDeref e) =
    (case to_rvalue tu (type_of l tu e) of
       Some (TPtr t) \<Rightarrow>
         if unqual t = TVoid then (if l = LangC then Some (RV, TVoid) else None)
         else Some (LV, t)
     | _ \<Rightarrow> None)"
| "type_of l tu (EMember e m) =
    (case type_of l tu e of
       None \<Rightarrow> None
     | Some (c, t) \<Rightarrow>
         (case unqual t of
            TStruct tag \<Rightarrow>
              (case map_of (tu_struct_defs tu) tag of
                 None \<Rightarrow> None
               | Some ms \<Rightarrow>
                   (case map_of ms m of
                      None \<Rightarrow> None
                    | Some tm \<Rightarrow> Some (c, if t = unqual t then tm else TConst tm)))
          | _ \<Rightarrow> None))"
| "type_of l tu (ESizeOf t) =
    (case resolve l tu t of
       None \<Rightarrow> None
     | Some t' \<Rightarrow> if complete tu t' then Some (RV, TSize) else None)"

text \<open>
  The caller's statements: the definition of an object \<open>T x;\<close> or \<open>T x = e;\<close>, the
  binding of a reference \<open>T &r = e;\<close> (C++ only), and an expression statement \<open>e;\<close>. An
  object needs a complete type, and its initialiser a value of that type. A reference
  binds to an lvalue of its type, \<open>const\<close> added at most. The value of an expression
  statement is discarded: C converts an lvalue first, C++ does not.
\<close>

datatype stmt =
    ObjDef ctype "expr option"
  | RefBind ctype expr
  | Eval expr

fun accepts :: "lang \<Rightarrow> tunit \<Rightarrow> stmt \<Rightarrow> bool" where
  "accepts l tu (ObjDef t init) =
    (case resolve l tu t of
       None \<Rightarrow> False
     | Some t' \<Rightarrow>
         complete tu t' \<and>
         (case init of
            None \<Rightarrow> True
          | Some e \<Rightarrow> to_rvalue tu (type_of l tu e) = Some (unqual t')))"
| "accepts l tu (RefBind t e) =
    (l = LangCxx \<and>
     (case resolve l tu t of
        None \<Rightarrow> False
      | Some t' \<Rightarrow>
          (case type_of l tu e of
             Some (LV, t'') \<Rightarrow> t' = t'' \<or> t' = TConst t''
           | _ \<Rightarrow> False)))"
| "accepts l tu (Eval e) =
    (case type_of l tu e of
       None \<Rightarrow> False
     | Some (RV, t) \<Rightarrow> True
     | Some (LV, t) \<Rightarrow> l = LangCxx \<or> complete tu t)"

text \<open>Whether an expression, or a statement, applies \<open>*\<close> anywhere.\<close>

fun derefs :: "expr \<Rightarrow> bool" where
  "derefs (ECall f args) = list_ex derefs args"
| "derefs (EDeref e) = True"
| "derefs (EMember e m) = derefs e"
| "derefs (ESizeOf t) = False"

fun stmt_derefs :: "stmt \<Rightarrow> bool" where
  "stmt_derefs (ObjDef t None) = False"
| "stmt_derefs (ObjDef t (Some e)) = derefs e"
| "stmt_derefs (RefBind t e) = derefs e"
| "stmt_derefs (Eval e) = derefs e"

text \<open>A caller's statement after the header, in a file compiled with the macros \<open>M\<close>.\<close>

definition caller_accepts :: "lang \<Rightarrow> macros \<Rightarrow> line list \<Rightarrow> stmt \<Rightarrow> bool option" where
  "caller_accepts l M hdr s = map_option (\<lambda>tu. accepts l tu s) (compile l M hdr)"

text \<open>
  The declarations of lines 4 and 10 written out; \<open>compile_header\<close> below shows that
  compiling the header gives exactly these.
\<close>

definition header_tu :: tunit where
  "header_tu =
    \<lparr> tu_typedefs = [(''TSLanguage'', TStruct ''TSLanguage'')],
      tu_struct_decls = [''TSLanguage''],
      tu_struct_defs = [],
      tu_funs =
        [\<lparr> fd_name = ''tree_sitter_tsg_python'', fd_linkage = CLinkage, fd_external = True,
           fd_ret = TPtr (TConst (TStruct ''TSLanguage'')), fd_params = [] \<rparr>] \<rparr>"

section \<open>The accessor's behaviour\<close>

text \<open>
  Modelled from the spec: the body of \<open>tree_sitter_tsg_python\<close>. The header declares the
  function; its definition (the generated parser source that holds the grammar table) is
  not among the source files. The spec's words are: "a single exported, ABI-stable
  function returning an opaque handle to a compiled Parse Table for one named grammar;
  takes no arguments, is idempotent, and must be safe to call from multiple threads
  returning the same handle value", "it has no state, no algorithm, and no failure modes
  beyond \<open>grammar table exists\<close>", and, for the table, "loaded once at startup, immutable
  for process lifetime".

  A process is the location of its grammar table, if the table exists, together with
  everything else that can be observed of it (\<open>world\<close>). The accessor reads the location
  and touches nothing.
\<close>

datatype handle = Handle nat

datatype accessor_error = NoGrammarTable

record 'w process =
  grammar_table :: "handle option"
  world :: 'w

definition tree_sitter_tsg_python :: "'w process \<Rightarrow> (accessor_error + handle) \<times> 'w process" where
  "tree_sitter_tsg_python p =
    (case grammar_table p of None \<Rightarrow> Inl NoGrammarTable | Some h \<Rightarrow> Inr h, p)"

text \<open>
  Modelled from the spec: a run of the process. Between calls of the accessor the process
  does other things, which may change the world in any way but, by the sentence on the
  table's lifetime, not the table. A run collects what each call returned, in order.
\<close>

datatype 'w event = Call | Other "'w \<Rightarrow> 'w"

fun run :: "'w event list \<Rightarrow> 'w process \<Rightarrow> (accessor_error + handle) list \<times> 'w process" where
  "run [] p = ([], p)"
| "run (Call # es) p =
    (case tree_sitter_tsg_python p of
       (r, p') \<Rightarrow> (case run es p' of (rs, p'') \<Rightarrow> (r # rs, p'')))"
| "run (Other f # es) p = run es (p\<lparr> world := f (world p) \<rparr>)"

fun calls :: "'w event list \<Rightarrow> nat" where
  "calls [] = 0"
| "calls (Call # es) = Suc (calls es)"
| "calls (Other f # es) = calls es"

section \<open>The declarations the header gives\<close>

text \<open>
  The three conditions on the macros defined beforehand that the results below share:
  the include guard is not defined yet, \<open>__cplusplus\<close> is defined in C++ only, and no
  word of the header's text names a macro.
\<close>

lemma header_tokens:
  assumes "map_of M guard = None"
    and "l = LangC \<longrightarrow> map_of M cplusplus = None"
    and "untouched M tsg_python_h"
  shows "map_option fst (preprocess (predefined l @ M) [] tsg_python_h) =
    Some
     ([Word ''typedef'', Word ''struct'', Word ''TSLanguage'', Word ''TSLanguage'', Punct '';'']
      @ (if l = LangCxx then [Word ''extern'', StrLit ''C'', Punct ''{''] else [])
      @ [Word ''const'', Word ''TSLanguage'', Punct ''*'', Word ''tree_sitter_tsg_python'',
         Punct ''('', Word ''void'', Punct '')'', Punct '';'']
      @ (if l = LangCxx then [Punct ''}''] else []))"
  using assms
  by (cases l) (simp_all add: tsg_python_h_def untouched_def guard_def cplusplus_def)

lemmas parse_defs =
  parse_unit_def parse_chunk_def parse_typedef_def parse_struct_def parse_proto_def
  parse_storage_def parse_type_def parse_params_def parse_param_def parse_members_def
  parse_member_def is_name_def reserved_def

lemma parse_header_C:
  "parse_unit
     [Word ''typedef'', Word ''struct'', Word ''TSLanguage'', Word ''TSLanguage'', Punct '';'',
      Word ''const'', Word ''TSLanguage'', Punct ''*'', Word ''tree_sitter_tsg_python'',
      Punct ''('', Word ''void'', Punct '')'', Punct '';''] =
   Some [TypedefStruct ''TSLanguage'' ''TSLanguage'',
         FunProto None (TPtr (TConst (TNamed ''TSLanguage''))) ''tree_sitter_tsg_python'' []]"
  by (simp add: parse_defs)

lemma parse_header_Cxx:
  "parse_unit
     [Word ''typedef'', Word ''struct'', Word ''TSLanguage'', Word ''TSLanguage'', Punct '';'',
      Word ''extern'', StrLit ''C'', Punct ''{'',
      Word ''const'', Word ''TSLanguage'', Punct ''*'', Word ''tree_sitter_tsg_python'',
      Punct ''('', Word ''void'', Punct '')'', Punct '';'',
      Punct ''}''] =
   Some [TypedefStruct ''TSLanguage'' ''TSLanguage'',
         LinkageOpen ''C'',
         FunProto None (TPtr (TConst (TNamed ''TSLanguage''))) ''tree_sitter_tsg_python'' [],
         LinkageClose]"
  by (simp add: parse_defs)

lemma header_declarations:
  assumes "map_of M guard = None"
    and "l = LangC \<longrightarrow> map_of M cplusplus = None"
    and "untouched M tsg_python_h"
  shows "declarations l M tsg_python_h =
    Some
     ([TypedefStruct ''TSLanguage'' ''TSLanguage'']
      @ (if l = LangCxx then [LinkageOpen ''C''] else [])
      @ [FunProto None (TPtr (TConst (TNamed ''TSLanguage''))) ''tree_sitter_tsg_python'' []]
      @ (if l = LangCxx then [LinkageClose] else []))"
proof -
  from header_tokens [OF assms] obtain toks M' where
    p: "preprocess (predefined l @ M) [] tsg_python_h = Some (toks, M')" and
    t: "toks =
      [Word ''typedef'', Word ''struct'', Word ''TSLanguage'', Word ''TSLanguage'', Punct '';'']
      @ (if l = LangCxx then [Word ''extern'', StrLit ''C'', Punct ''{''] else [])
      @ [Word ''const'', Word ''TSLanguage'', Punct ''*'', Word ''tree_sitter_tsg_python'',
         Punct ''('', Word ''void'', Punct '')'', Punct '';'']
      @ (if l = LangCxx then [Punct ''}''] else [])"
    by (cases "preprocess (predefined l @ M) [] tsg_python_h") auto
  show ?thesis
  proof (cases l)
    case LangC
    with p t parse_header_C show ?thesis
      by (simp add: declarations_def)
  next
    case LangCxx
    with p t parse_header_Cxx show ?thesis
      by (simp add: declarations_def)
  qed
qed

lemma compile_header:
  assumes "map_of M guard = None"
    and "l = LangC \<longrightarrow> map_of M cplusplus = None"
    and "untouched M tsg_python_h"
  shows "compile l M tsg_python_h = Some header_tu"
  using header_declarations [OF assms]
  by (cases l) (simp_all add: compile_def empty_tu_def header_tu_def)

text \<open>
  Reading the header a second time adds nothing: the include guard is defined by then.
\<close>

lemma include_guard_idempotent:
  assumes "map_of M guard = None"
    and "l = LangC \<longrightarrow> map_of M cplusplus = None"
    and "untouched M tsg_python_h"
  shows "preprocess (predefined l @ M) [] (tsg_python_h @ tsg_python_h) =
         preprocess (predefined l @ M) [] tsg_python_h"
  using assms
  by (cases l) (simp_all add: tsg_python_h_def untouched_def guard_def cplusplus_def)

text \<open>
  Each mechanism matters to the result. Without lines 6 to 8 and 12 to 14 a C++ compiler
  would give the function C++ linkage, and with the linkage specification left unguarded
  a C compiler would reject the header. A macro that is spelled like a word of the header
  changes what the header declares: with \<open>TSLanguage\<close> defined as \<open>1\<close> line 4 is no
  declaration any more, and with \<open>tree_sitter_tsg_python\<close> defined as \<open>ts_lang\<close> the
  function declared is \<open>ts_lang\<close>. Had the header given the struct a member list, a
  caller could define an object of the type and read a member through the handle.
\<close>

lemma without_linkage_specification:
  "map_option (map fd_linkage \<circ> tu_funs)
     (compile LangCxx []
        [ IfNDef guard, Define guard [],
          Text [Word ''typedef'', Word ''struct'', Word ''TSLanguage'', Word ''TSLanguage'',
                Punct '';''],
          Text [Word ''const'', Word ''TSLanguage'', Punct ''*'',
                Word ''tree_sitter_tsg_python'', Punct ''('', Word ''void'', Punct '')'',
                Punct '';''],
          EndIf ]) = Some [CxxLinkage]"
  by (simp add: compile_def declarations_def empty_tu_def guard_def cplusplus_def parse_defs)

lemma unguarded_linkage_specification:
  "compile LangC []
     [ IfNDef guard, Define guard [],
       Text [Word ''typedef'', Word ''struct'', Word ''TSLanguage'', Word ''TSLanguage'',
             Punct '';''],
       Text [Word ''extern'', StrLit ''C'', Punct ''{''],
       Text [Word ''const'', Word ''TSLanguage'', Punct ''*'',
             Word ''tree_sitter_tsg_python'', Punct ''('', Word ''void'', Punct '')'',
             Punct '';''],
       Text [Punct ''}''],
       EndIf ] = None"
  by (simp add: compile_def declarations_def empty_tu_def guard_def cplusplus_def parse_defs)

lemma macro_on_type_name:
  "compile LangC [(''TSLanguage'', [Number ''1''])] tsg_python_h = None"
  by (simp add: compile_def declarations_def tsg_python_h_def guard_def cplusplus_def
        parse_defs)

lemma macro_on_accessor_name:
  "map_option (map fd_name \<circ> tu_funs)
     (compile LangC [(''tree_sitter_tsg_python'', [Word ''ts_lang''])] tsg_python_h) =
   Some [''ts_lang'']"
  by (simp add: compile_def declarations_def tsg_python_h_def empty_tu_def guard_def
        cplusplus_def parse_defs)

lemma defined_struct_is_usable:
  "caller_accepts LangC []
     (Text [Word ''struct'', Word ''TSLanguage'', Punct ''{'',
            Word ''const'', Word ''void'', Punct ''*'', Word ''symbols'', Punct '';'',
            Punct ''}'', Punct '';''] # tsg_python_h)
     (ObjDef (TNamed ''TSLanguage'') None) = Some True
   \<and> caller_accepts LangC []
     (Text [Word ''struct'', Word ''TSLanguage'', Punct ''{'',
            Word ''const'', Word ''void'', Punct ''*'', Word ''symbols'', Punct '';'',
            Punct ''}'', Punct '';''] # tsg_python_h)
     (Eval (EMember (EDeref (ECall ''tree_sitter_tsg_python'' [])) ''symbols'')) = Some True"
  by (simp add: caller_accepts_def compile_def declarations_def tsg_python_h_def empty_tu_def
        guard_def cplusplus_def parse_defs)

text \<open>
  Claim C1. The grammar accessor is a single exported function named
  \<open>tree_sitter_tsg_python\<close>: it takes no arguments and returns an opaque handle, a pointer
  to the incomplete type \<open>TSLanguage\<close>, to the compiled Parse Table, and it is declared
  with C linkage, through \<open>extern "C"\<close> when the header is compiled as C++, so that its
  symbol is the same in both languages.

  Stated on the header: whatever object-like macros are defined beforehand, under the
  three conditions above, in C and in C++ alike the header compiles, and it declares
  exactly one function, with that name, C linkage, external linkage, no parameters and
  result type pointer to const \<open>struct TSLanguage\<close>, a struct that is left incomplete.
  The linkage specification \<open>extern "C"\<close> is among the declarations exactly when the
  language is C++. What the returned pointer refers to is not in the header: on the
  accessor's body as modelled from the spec, a call returns the handle of the grammar
  table whenever the table exists.
\<close>

theorem accessor_declaration:
  assumes "map_of M guard = None"
    and "l = LangC \<longrightarrow> map_of M cplusplus = None"
    and "untouched M tsg_python_h"
  shows "(case compile l M tsg_python_h of
            None \<Rightarrow> False
          | Some tu \<Rightarrow>
              tu_funs tu =
                [\<lparr> fd_name = ''tree_sitter_tsg_python'', fd_linkage = CLinkage,
                   fd_external = True,
                   fd_ret = TPtr (TConst (TStruct ''TSLanguage'')), fd_params = [] \<rparr>]
              \<and> \<not> complete tu (TStruct ''TSLanguage''))
         \<and> (case declarations l M tsg_python_h of
               None \<Rightarrow> False
             | Some its \<Rightarrow> (LinkageOpen ''C'' \<in> set its) = (l = LangCxx))
         \<and> (grammar_table p = Some h \<longrightarrow> fst (tree_sitter_tsg_python p) = Inr h)"
  using compile_header [OF assms] header_declarations [OF assms]
  by (simp add: header_tu_def tree_sitter_tsg_python_def)

theorem accessor_declaration_witness:
  "map_of [(''NDEBUG'', [])] guard = None
   \<and> map_of [(''NDEBUG'', [])] cplusplus = None
   \<and> untouched [(''NDEBUG'', [])] tsg_python_h
   \<and> compile LangC [(''NDEBUG'', [])] tsg_python_h =
       Some \<lparr> tu_typedefs = [(''TSLanguage'', TStruct ''TSLanguage'')],
              tu_struct_decls = [''TSLanguage''], tu_struct_defs = [],
              tu_funs =
                [\<lparr> fd_name = ''tree_sitter_tsg_python'', fd_linkage = CLinkage,
                   fd_external = True,
                   fd_ret = TPtr (TConst (TStruct ''TSLanguage'')), fd_params = [] \<rparr>] \<rparr>
   \<and> declarations LangC [(''NDEBUG'', [])] tsg_python_h =
       Some [TypedefStruct ''TSLanguage'' ''TSLanguage'',
             FunProto None (TPtr (TConst (TNamed ''TSLanguage''))) ''tree_sitter_tsg_python'' []]
   \<and> fst (tree_sitter_tsg_python \<lparr> grammar_table = Some (Handle 4096), world = () \<rparr>) =
       Inr (Handle 4096)"
proof -
  have g: "map_of [(''NDEBUG'', [])] guard = None"
    by (simp add: guard_def)
  have c: "map_of [(''NDEBUG'', [])] cplusplus = None"
    by (simp add: cplusplus_def)
  then have c': "LangC = LangC \<longrightarrow> map_of [(''NDEBUG'', [])] cplusplus = None"
    by simp
  have u: "untouched [(''NDEBUG'', [])] tsg_python_h"
    by (simp add: untouched_def tsg_python_h_def)
  have d: "declarations LangC [(''NDEBUG'', [])] tsg_python_h =
       Some [TypedefStruct ''TSLanguage'' ''TSLanguage'',
             FunProto None (TPtr (TConst (TNamed ''TSLanguage''))) ''tree_sitter_tsg_python'' []]"
    by (simp add: declarations_def tsg_python_h_def guard_def cplusplus_def parse_defs)
  then have t: "compile LangC [(''NDEBUG'', [])] tsg_python_h =
       Some \<lparr> tu_typedefs = [(''TSLanguage'', TStruct ''TSLanguage'')],
              tu_struct_decls = [''TSLanguage''], tu_struct_defs = [],
              tu_funs =
                [\<lparr> fd_name = ''tree_sitter_tsg_python'', fd_linkage = CLinkage,
                   fd_external = True,
                   fd_ret = TPtr (TConst (TStruct ''TSLanguage'')), fd_params = [] \<rparr>] \<rparr>"
    by (simp add: compile_def empty_tu_def)
  have "grammar_table \<lparr> grammar_table = Some (Handle 4096), world = () \<rparr> = Some (Handle 4096)"
    by simp
  with g c u d t
    accessor_declaration
      [OF g c' u, of "\<lparr> grammar_table = Some (Handle 4096), world = () \<rparr>" "Handle 4096"]
  show ?thesis
    by simp
qed

section \<open>What a caller can do with the handle\<close>

lemma complete_unqual: "complete tu (unqual t) = complete tu t"
  by (induction t) simp_all

text \<open>
  With the header's declarations alone, only three kinds of expression are well typed:
  the call of the accessor, the indirection through that call, and \<open>sizeof\<close> of a complete
  type.
\<close>

lemma header_typing:
  "type_of l header_tu e = Some (c, t) \<Longrightarrow>
     (e = ECall ''tree_sitter_tsg_python'' [] \<and> c = RV
        \<and> t = TPtr (TConst (TStruct ''TSLanguage'')))
   \<or> (e = EDeref (ECall ''tree_sitter_tsg_python'' []) \<and> c = LV
        \<and> t = TConst (TStruct ''TSLanguage''))
   \<or> (\<exists>ty. e = ESizeOf ty \<and> c = RV \<and> t = TSize)"
proof (induction e arbitrary: c t)
  case (ECall f args)
  then show ?case
    by (auto simp: header_tu_def split: if_splits)
next
  case (EDeref e)
  from EDeref.prems obtain u where
    r: "to_rvalue header_tu (type_of l header_tu e) = Some (TPtr u)"
    by (auto split: option.splits ctype.splits)
  then obtain c' t' where ty: "type_of l header_tu e = Some (c', t')"
    by (cases "type_of l header_tu e") auto
  from EDeref.IH [OF ty] r ty EDeref.prems show ?case
    by (auto simp: header_tu_def split: if_splits)
next
  case (EMember e m)
  then show ?case
    by (auto simp: header_tu_def split: option.splits ctype.splits)
next
  case (ESizeOf ty)
  then show ?case
    by (auto split: option.splits if_splits)
qed

lemma header_no_value:
  "to_rvalue header_tu (type_of l header_tu e) \<noteq> Some (TStruct ''TSLanguage'')"
proof (cases "type_of l header_tu e")
  case None
  then show ?thesis by simp
next
  case (Some ct)
  obtain c t where "ct = (c, t)" by (cases ct)
  with Some header_typing [of l e c t] show ?thesis
    by (auto simp: header_tu_def)
qed

lemma header_no_member: "type_of l header_tu (EMember e m) = None"
  by (auto simp: header_tu_def split: option.splits ctype.splits)

lemma header_incomplete:
  "unqual t' = TStruct ''TSLanguage'' \<Longrightarrow> \<not> complete header_tu t'"
  using complete_unqual [of header_tu t'] by (simp add: header_tu_def)

lemma header_no_construct:
  "resolve l header_tu t = Some t' \<Longrightarrow> unqual t' = TStruct ''TSLanguage'' \<Longrightarrow>
   \<not> accepts l header_tu (ObjDef t init)"
  using header_incomplete [of t'] by simp

lemma header_no_sizeof:
  "resolve l header_tu t = Some t' \<Longrightarrow> unqual t' = TStruct ''TSLanguage'' \<Longrightarrow>
   type_of l header_tu (ESizeOf t) = None"
  using header_incomplete [of t'] by simp

lemma header_well_typed_derefs:
  "type_of l header_tu e = Some (c, t) \<Longrightarrow> derefs e \<Longrightarrow>
   c = LV \<and> t = TConst (TStruct ''TSLanguage'')"
  using header_typing [of l e c t] by auto

lemma header_C_no_deref: "accepts LangC header_tu s \<Longrightarrow> \<not> stmt_derefs s"
proof (cases s)
  case (ObjDef t init)
  assume a: "accepts LangC header_tu s"
  show ?thesis
  proof (cases init)
    case None
    with ObjDef show ?thesis by simp
  next
    case (Some e)
    show ?thesis
    proof
      assume "stmt_derefs s"
      with ObjDef Some have d: "derefs e" by simp
      from a ObjDef Some obtain u where
        r: "to_rvalue header_tu (type_of LangC header_tu e) = Some u"
        by (auto split: option.splits)
      then obtain c t where ty: "type_of LangC header_tu e = Some (c, t)"
        by (cases "type_of LangC header_tu e") auto
      from header_well_typed_derefs [OF ty d] ty r show False
        by (simp add: header_tu_def)
    qed
  qed
next
  case (RefBind t e)
  assume "accepts LangC header_tu s"
  with RefBind show ?thesis by simp
next
  case (Eval e)
  assume a: "accepts LangC header_tu s"
  show ?thesis
  proof
    assume "stmt_derefs s"
    with Eval have d: "derefs e" by simp
    from a Eval obtain c t where ty: "type_of LangC header_tu e = Some (c, t)"
      by (cases "type_of LangC header_tu e") auto
    from header_well_typed_derefs [OF ty d] ty a Eval show False
      by (simp add: header_tu_def)
  qed
qed

lemma header_Cxx_deref:
  "accepts LangCxx header_tu
     (RefBind (TConst (TNamed ''TSLanguage'')) (EDeref (ECall ''tree_sitter_tsg_python'' [])))"
  by (simp add: header_tu_def)

lemma header_sole:
  "type_of l header_tu e = Some (c, t) \<Longrightarrow> mentions ''TSLanguage'' t \<Longrightarrow>
     (e = ECall ''tree_sitter_tsg_python'' [] \<and> c = RV
        \<and> t = TPtr (TConst (TStruct ''TSLanguage'')))
   \<or> (e = EDeref (ECall ''tree_sitter_tsg_python'' []) \<and> c = LV
        \<and> t = TConst (TStruct ''TSLanguage''))"
  using header_typing [of l e c t] by auto

text \<open>
  Claim C10, as it is written: \<open>TSLanguage\<close> is only forward-declared, as an incomplete
  struct, so through this header a caller can neither construct, copy, dereference nor
  inspect a Parse Table value; the accessor is the only way the header yields a Parse
  Table, and it yields it by opaque pointer only.

  For a C++ caller the word "dereference" does not hold: after the header, a C++ file may
  apply \<open>*\<close> to the handle and bind the result to a reference,
  \<^verbatim>\<open>const TSLanguage &r = *tree_sitter_tsg_python();\<close>
\<close>

theorem TSLanguage_dereference_counterexample:
  "stmt_derefs
     (RefBind (TConst (TNamed ''TSLanguage'')) (EDeref (ECall ''tree_sitter_tsg_python'' [])))
   \<and> caller_accepts LangCxx [] tsg_python_h
       (RefBind (TConst (TNamed ''TSLanguage'')) (EDeref (ECall ''tree_sitter_tsg_python'' [])))
     = Some True"
  by (simp add: caller_accepts_def compile_def declarations_def tsg_python_h_def empty_tu_def
        guard_def cplusplus_def parse_defs)

text \<open>
  Claim C10, amended. \<open>TSLanguage\<close> is only forward-declared, as an incomplete struct, so
  through this header a caller can neither construct, copy nor inspect a Parse Table
  value, in C or in C++. In C no statement that reads, stores or discards the result of
  \<open>*\<close> applied to the handle is accepted; in C++ \<open>*\<close> may be applied to it and the result
  bound to a reference, but the result is an lvalue of the incomplete type and never a
  value. The accessor is the only way the header yields a Parse Table, and it yields it by
  opaque pointer only.

  Stated on the header, for C and C++ and any macros under the three conditions, with
  the caller's statements as defined above:
  \<^item> the struct tag is declared and has no member list;
  \<^item> no definition of an object whose type is \<open>struct TSLanguage\<close>, qualified or not,
    initialised or not, is accepted (construct);
  \<^item> no expression has a \<open>struct TSLanguage\<close> as its value, which initialising,
    passing and returning by value all need (copy);
  \<^item> no member selection is well typed, and neither is \<open>sizeof\<close> of the type (inspect);
  \<^item> in C no accepted statement contains an indirection; in C++ the binding above is
    accepted (dereference);
  \<^item> an expression whose type mentions \<open>struct TSLanguage\<close> is the call of
    \<open>tree_sitter_tsg_python\<close>, an rvalue pointer, or the indirection through that call, an
    lvalue of the incomplete type; and the header declares no other function.
\<close>

theorem TSLanguage_opaque:
  assumes "map_of M guard = None"
    and "l = LangC \<longrightarrow> map_of M cplusplus = None"
    and "untouched M tsg_python_h"
  shows "case compile l M tsg_python_h of
           None \<Rightarrow> False
         | Some tu \<Rightarrow>
             ''TSLanguage'' \<in> set (tu_struct_decls tu)
             \<and> map_of (tu_struct_defs tu) ''TSLanguage'' = None
             \<and> (\<forall>t t' init. resolve l tu t = Some t' \<longrightarrow> unqual t' = TStruct ''TSLanguage'' \<longrightarrow>
                    \<not> accepts l tu (ObjDef t init))
             \<and> (\<forall>e. to_rvalue tu (type_of l tu e) \<noteq> Some (TStruct ''TSLanguage''))
             \<and> (\<forall>e m. type_of l tu (EMember e m) = None)
             \<and> (\<forall>t t'. resolve l tu t = Some t' \<longrightarrow> unqual t' = TStruct ''TSLanguage'' \<longrightarrow>
                    type_of l tu (ESizeOf t) = None)
             \<and> (l = LangC \<longrightarrow> (\<forall>s. accepts l tu s \<longrightarrow> \<not> stmt_derefs s))
             \<and> (l = LangCxx \<longrightarrow>
                  accepts l tu (RefBind (TConst (TNamed ''TSLanguage''))
                                  (EDeref (ECall ''tree_sitter_tsg_python'' []))))
             \<and> (\<forall>e c t. type_of l tu e = Some (c, t) \<longrightarrow> mentions ''TSLanguage'' t \<longrightarrow>
                    (e = ECall ''tree_sitter_tsg_python'' [] \<and> c = RV
                       \<and> t = TPtr (TConst (TStruct ''TSLanguage'')))
                  \<or> (e = EDeref (ECall ''tree_sitter_tsg_python'' []) \<and> c = LV
                       \<and> t = TConst (TStruct ''TSLanguage'')))
             \<and> map fd_name (tu_funs tu) = [''tree_sitter_tsg_python'']"
proof -
  have "''TSLanguage'' \<in> set (tu_struct_decls header_tu)"
    and "map_of (tu_struct_defs header_tu) ''TSLanguage'' = None"
    and "map fd_name (tu_funs header_tu) = [''tree_sitter_tsg_python'']"
    by (simp_all add: header_tu_def)
  moreover have "l = LangC \<longrightarrow> (\<forall>s. accepts l header_tu s \<longrightarrow> \<not> stmt_derefs s)"
    using header_C_no_deref by blast
  moreover have "l = LangCxx \<longrightarrow>
      accepts l header_tu
        (RefBind (TConst (TNamed ''TSLanguage'')) (EDeref (ECall ''tree_sitter_tsg_python'' [])))"
    using header_Cxx_deref by blast
  ultimately show ?thesis
    using compile_header [OF assms] header_no_construct [of l] header_no_value [of l]
      header_no_member [of l] header_no_sizeof [of l] header_sole [of l]
    by (simp del: accepts.simps type_of.simps)
qed

theorem TSLanguage_opaque_witness:
  "map_of [(''NDEBUG'', [])] guard = None
   \<and> map_of [(''NDEBUG'', [])] cplusplus = None
   \<and> untouched [(''NDEBUG'', [])] tsg_python_h
   \<and> caller_accepts LangC [(''NDEBUG'', [])] tsg_python_h
       (ObjDef (TNamed ''TSLanguage'') None) = Some False
   \<and> caller_accepts LangC [(''NDEBUG'', [])] tsg_python_h
       (ObjDef (TNamed ''TSLanguage'') (Some (EDeref (ECall ''tree_sitter_tsg_python'' []))))
     = Some False
   \<and> caller_accepts LangC [(''NDEBUG'', [])] tsg_python_h
       (Eval (EDeref (ECall ''tree_sitter_tsg_python'' []))) = Some False
   \<and> caller_accepts LangC [(''NDEBUG'', [])] tsg_python_h
       (Eval (EMember (EDeref (ECall ''tree_sitter_tsg_python'' [])) ''version'')) = Some False
   \<and> caller_accepts LangC [(''NDEBUG'', [])] tsg_python_h
       (Eval (ESizeOf (TNamed ''TSLanguage''))) = Some False
   \<and> caller_accepts LangC [(''NDEBUG'', [])] tsg_python_h
       (ObjDef (TPtr (TConst (TNamed ''TSLanguage'')))
          (Some (ECall ''tree_sitter_tsg_python'' []))) = Some True"
proof -
  have g: "map_of [(''NDEBUG'', [])] guard = None"
    by (simp add: guard_def)
  have c: "map_of [(''NDEBUG'', [])] cplusplus = None"
    by (simp add: cplusplus_def)
  then have c': "LangC = LangC \<longrightarrow> map_of [(''NDEBUG'', [])] cplusplus = None"
    by simp
  have u: "untouched [(''NDEBUG'', [])] tsg_python_h"
    by (simp add: untouched_def tsg_python_h_def)
  have t: "compile LangC [(''NDEBUG'', [])] tsg_python_h = Some header_tu"
    by (simp add: compile_def declarations_def tsg_python_h_def empty_tu_def header_tu_def
          guard_def cplusplus_def parse_defs)
  have r: "resolve LangC header_tu (TNamed ''TSLanguage'') = Some (TStruct ''TSLanguage'')"
    by (simp add: header_tu_def)
  from TSLanguage_opaque [OF g c' u] t
  have o: "\<forall>t t' init. resolve LangC header_tu t = Some t' \<longrightarrow>
             unqual t' = TStruct ''TSLanguage'' \<longrightarrow> \<not> accepts LangC header_tu (ObjDef t init)"
    and m: "\<forall>e m. type_of LangC header_tu (EMember e m) = None"
    and z: "\<forall>t t'. resolve LangC header_tu t = Some t' \<longrightarrow>
             unqual t' = TStruct ''TSLanguage'' \<longrightarrow> type_of LangC header_tu (ESizeOf t) = None"
    and d: "\<forall>s. accepts LangC header_tu s \<longrightarrow> \<not> stmt_derefs s"
    by (simp_all del: accepts.simps type_of.simps)
  from o r have 1: "\<not> accepts LangC header_tu (ObjDef (TNamed ''TSLanguage'') None)"
    and 2: "\<not> accepts LangC header_tu
              (ObjDef (TNamed ''TSLanguage'') (Some (EDeref (ECall ''tree_sitter_tsg_python'' []))))"
    by (auto simp del: accepts.simps)
  from d have 3: "\<not> accepts LangC header_tu (Eval (EDeref (ECall ''tree_sitter_tsg_python'' [])))"
    by (auto simp del: accepts.simps)
  from m have 4: "\<not> accepts LangC header_tu
      (Eval (EMember (EDeref (ECall ''tree_sitter_tsg_python'' [])) ''version''))"
    by (simp del: type_of.simps)
  from z r have 5: "\<not> accepts LangC header_tu (Eval (ESizeOf (TNamed ''TSLanguage'')))"
    by (simp del: type_of.simps)
  have 6: "accepts LangC header_tu
      (ObjDef (TPtr (TConst (TNamed ''TSLanguage''))) (Some (ECall ''tree_sitter_tsg_python'' [])))"
    by (simp add: header_tu_def)
  from g c u t 1 2 3 4 5 6 show ?thesis
    by (simp add: caller_accepts_def del: accepts.simps)
qed

section \<open>Calls of the accessor\<close>

lemma run_keeps_table: "grammar_table (snd (run es p)) = grammar_table p"
  by (induction es p rule: run.induct)
     (simp_all add: tree_sitter_tsg_python_def split_beta)

lemma run_results:
  "fst (run es p) = replicate (calls es) (fst (tree_sitter_tsg_python p))"
  by (induction es p rule: run.induct)
     (simp_all add: tree_sitter_tsg_python_def split_beta)

text \<open>
  Claim C2. The accessor is idempotent: every call, in any state and in any sequence of
  calls, returns the same handle value as every other call.

  Stated on the model of the accessor: in a run of any events from any process state,
  the results of the calls, in order, are as many copies of what a call in the starting
  state returns as there are calls; and a call made after the run returns that value too.
\<close>

theorem accessor_same_handle:
  "fst (run es p) = replicate (calls es) (fst (tree_sitter_tsg_python p))
   \<and> fst (tree_sitter_tsg_python (snd (run es p))) = fst (tree_sitter_tsg_python p)"
  using run_keeps_table [of es p] run_results [of es p]
  by (simp add: tree_sitter_tsg_python_def)

text \<open>
  Claim C4. The accessor has no state, no algorithm and no failure mode other than the
  existence of the grammar table: every call succeeds and returns the grammar-table
  handle, and no call changes any observable state.

  Stated on the model of the accessor: a call leaves the process as it was; where the
  table exists the call returns its handle; a call that fails means the table does not
  exist; and the result does not depend on the rest of the process state.
\<close>

theorem accessor_pure_total:
  "snd (tree_sitter_tsg_python p) = p
   \<and> (grammar_table p = Some h \<longrightarrow> fst (tree_sitter_tsg_python p) = Inr h)
   \<and> (fst (tree_sitter_tsg_python p) = Inl e \<longrightarrow> grammar_table p = None)
   \<and> fst (tree_sitter_tsg_python (p\<lparr> world := w \<rparr>)) = fst (tree_sitter_tsg_python p)"
  by (simp add: tree_sitter_tsg_python_def split: option.splits)

theorem accessor_pure_total_witness:
  "grammar_table \<lparr> grammar_table = Some (Handle 4096), world = ''w0'' \<rparr> = Some (Handle 4096)
   \<and> tree_sitter_tsg_python \<lparr> grammar_table = Some (Handle 4096), world = ''w0'' \<rparr> =
       (Inr (Handle 4096), \<lparr> grammar_table = Some (Handle 4096), world = ''w0'' \<rparr>)
   \<and> fst (tree_sitter_tsg_python \<lparr> grammar_table = None, world = ''w0'' \<rparr>) = Inl NoGrammarTable
   \<and> grammar_table \<lparr> grammar_table = None, world = ''w0'' \<rparr> = None"
proof -
  have ok: "grammar_table \<lparr> grammar_table = Some (Handle 4096), world = ''w0'' \<rparr> = Some (Handle 4096)"
    by simp
  have bad: "fst (tree_sitter_tsg_python \<lparr> grammar_table = None, world = ''w0'' \<rparr>) = Inl NoGrammarTable"
    by (simp add: tree_sitter_tsg_python_def)
  from ok bad
    accessor_pure_total
      [of "\<lparr> grammar_table = Some (Handle 4096), world = ''w0'' \<rparr>" "Handle 4096" NoGrammarTable "''w0''"]
    accessor_pure_total
      [of "\<lparr> grammar_table = None, world = ''w0'' \<rparr>" "Handle 4096" NoGrammarTable "''w0''"]
  show ?thesis
    by (simp add: prod_eq_iff)
qed

end
